theory Spec2Isabelle
  imports Complex_Main "HOL-Library.Word"
begin

unbundle bit_operations_syntax

section \<open>Pin assignments of the three display scripts\<close>

text \<open>
  Module-level constants of \<^verbatim>\<open>epaper_test.py\<close> (lines 14-21). The two other scripts
  define constants of the same names; theirs carry the module name as a prefix.
\<close>

definition RST_PIN :: nat where "RST_PIN = 17"
definition DC_PIN :: nat where "DC_PIN = 25"
definition CS_PIN :: nat where "CS_PIN = 8"
definition BUSY_PIN :: nat where "BUSY_PIN = 24"

definition EPD_WIDTH :: nat where "EPD_WIDTH = 1600"
definition EPD_HEIGHT :: nat where "EPD_HEIGHT = 1200"

text \<open>\<^verbatim>\<open>display_diagnostic.py\<close>, lines 13-15.\<close>

definition display_diagnostic_RST_PIN :: nat where "display_diagnostic_RST_PIN = 17"
definition display_diagnostic_DC_PIN :: nat where "display_diagnostic_DC_PIN = 25"
definition display_diagnostic_BUSY_PIN :: nat where "display_diagnostic_BUSY_PIN = 24"

text \<open>\<^verbatim>\<open>simple_test.py\<close>, lines 13-17.\<close>

definition simple_test_RST_PIN :: nat where "simple_test_RST_PIN = 11"
definition simple_test_DC_PIN :: nat where "simple_test_DC_PIN = 22"
definition simple_test_CS_M_PIN :: nat where "simple_test_CS_M_PIN = 24"
definition simple_test_CS_S_PIN :: nat where "simple_test_CS_S_PIN = 26"
definition simple_test_BUSY_PIN :: nat where "simple_test_BUSY_PIN = 18"

section \<open>The display driver of \<^verbatim>\<open>epaper_test.py\<close>\<close>

subsection \<open>Hardware state\<close>

text \<open>
  The driver talks to the panel through RPi.GPIO and spidev. What the panel can observe
  is recorded as a trace of events, in program order:
  \<^item> \<open>GpioSetup pin out\<close>: \<^verbatim>\<open>GPIO.setup(pin, GPIO.OUT)\<close> (\<open>out = True\<close>) or
    \<^verbatim>\<open>GPIO.IN\<close>;
  \<^item> \<open>GpioOut pin lvl\<close>: \<^verbatim>\<open>GPIO.output(pin, lvl)\<close>, \<open>True\<close> for \<^verbatim>\<open>GPIO.HIGH\<close>;
  \<^item> \<open>SpiXfer dc v\<close>: \<^verbatim>\<open>spi.xfer2([v])\<close>, together with the level the DC line has
    at that moment (the panel samples DC with every byte); \<open>v\<close> is the Python integer
    handed to \<^verbatim>\<open>xfer2\<close>;
  \<^item> \<open>GpioCleanup\<close>, \<open>SpiOpen\<close>, \<open>SpiClose\<close>.
  \<^verbatim>\<open>GPIO.setmode\<close> and \<^verbatim>\<open>GPIO.setwarnings\<close> configure the library and touch no pin;
  console output is not recorded.

  Time is counted in seconds, as \<^verbatim>\<open>time.time()\<close> counts it. \<^verbatim>\<open>time.sleep(d)\<close>
  returns after at least \<open>d\<close> seconds. By how much the clock has moved on beyond \<open>d\<close>
  when the program looks at it again, the statements run in between included, is for
  the environment to say: \<open>overshoot w t\<close> for a sleep that starts at time \<open>t\<close> (its
  absolute value, so that the clock never runs backwards). The BUSY line is an input:
  \<open>busy t\<close> is \<open>True\<close> when a read at time \<open>t\<close> finds the line HIGH.
\<close>

datatype event =
    GpioSetup nat bool
  | GpioOut nat bool
  | GpioCleanup
  | SpiOpen
  | SpiXfer bool int
  | SpiClose

record world =
  level :: "nat \<Rightarrow> bool"
  now :: real
  overshoot :: "real \<Rightarrow> real"
  trace :: "event list"

definition emit :: "event \<Rightarrow> world \<Rightarrow> world" where
  "emit e w = w\<lparr>trace := trace w @ [e]\<rparr>"

definition gpio_setup :: "nat \<Rightarrow> bool \<Rightarrow> world \<Rightarrow> world" where
  "gpio_setup pin out w = emit (GpioSetup pin out) w"

definition gpio_output :: "nat \<Rightarrow> bool \<Rightarrow> world \<Rightarrow> world" where
  "gpio_output pin lvl w = emit (GpioOut pin lvl) (w\<lparr>level := (level w)(pin := lvl)\<rparr>)"

definition gpio_cleanup :: "world \<Rightarrow> world" where
  "gpio_cleanup w = emit GpioCleanup w"

definition time_sleep :: "real \<Rightarrow> world \<Rightarrow> world" where
  "time_sleep d w = w\<lparr>now := now w + d + \<bar>overshoot w (now w)\<bar>\<rparr>"

subsection \<open>Sending bytes\<close>

text \<open>Lines 30-43. The leading underscore of the Python names is dropped.\<close>

definition spi_transfer :: "int \<Rightarrow> world \<Rightarrow> world" where
  "spi_transfer data w = emit (SpiXfer (level w DC_PIN) data) w"

definition send_command :: "int \<Rightarrow> world \<Rightarrow> world" where
  "send_command command w = spi_transfer command (gpio_output DC_PIN False w)"

definition send_data :: "int \<Rightarrow> world \<Rightarrow> world" where
  "send_data data w = spi_transfer data (gpio_output DC_PIN True w)"

subsection \<open>Waiting for the panel\<close>

text \<open>
  Lines 45-57. \<open>wait_loop\<close> is the \<^verbatim>\<open>while\<close> loop; \<open>start_time\<close> is the clock value
  read before the loop.
\<close>

function wait_loop :: "(real \<Rightarrow> bool) \<Rightarrow> real \<Rightarrow> nat \<Rightarrow> world \<Rightarrow> bool \<times> world" where
  "wait_loop busy start_time timeout_seconds w =
     (if busy (now w) then
        (let w' = time_sleep 0.1 w in
         if now w' - start_time > real timeout_seconds then (False, w')
         else wait_loop busy start_time timeout_seconds w')
      else (True, w))"
  by pat_completeness auto
termination
proof (relation "measure (\<lambda>(busy, start_time, timeout_seconds, w).
    nat \<lceil>(start_time + real timeout_seconds - now w) * 10\<rceil>)")
  show "wf (measure (\<lambda>(busy, start_time, timeout_seconds, w).
    nat \<lceil>(start_time + real timeout_seconds - now w) * 10\<rceil>))"
    by simp
next
  fix busy :: "real \<Rightarrow> bool" and start_time :: real and timeout_seconds :: nat
    and w w' :: world
  assume w': "w' = time_sleep 0.1 w"
    and under: "\<not> real timeout_seconds < now w' - start_time"
  let ?x = "(start_time + real timeout_seconds - now w) * 10"
  let ?x' = "(start_time + real timeout_seconds - now w') * 10"
  from w' have "now w + 0.1 \<le> now w'" by (simp add: time_sleep_def)
  then have step: "?x' \<le> ?x - 1" by simp
  from under have pos: "0 \<le> ?x'" by simp
  from step have "\<lceil>?x'\<rceil> \<le> \<lceil>?x - 1\<rceil>" by (rule ceiling_mono)
  then have "\<lceil>?x'\<rceil> \<le> \<lceil>?x\<rceil> - 1" by simp
  moreover from pos have "0 \<le> \<lceil>?x'\<rceil>" by simp
  ultimately have "nat \<lceil>?x'\<rceil> < nat \<lceil>?x\<rceil>" by arith
  then show "((busy, start_time, timeout_seconds, w'), (busy, start_time, timeout_seconds, w))
    \<in> measure (\<lambda>(busy, start_time, timeout_seconds, w).
        nat \<lceil>(start_time + real timeout_seconds - now w) * 10\<rceil>)"
    by simp
qed

declare wait_loop.simps [simp del]

definition wait_until_idle :: "(real \<Rightarrow> bool) \<Rightarrow> nat \<Rightarrow> world \<Rightarrow> bool \<times> world" where
  "wait_until_idle busy timeout_seconds w = wait_loop busy (now w) timeout_seconds w"

subsection \<open>Initialisation, reset, refresh and sleep\<close>

text \<open>Lines 107-114.\<close>

definition reset :: "world \<Rightarrow> world" where
  "reset w =
     (let w = gpio_output RST_PIN True w;
          w = time_sleep 0.2 w;
          w = gpio_output RST_PIN False w;
          w = time_sleep 0.002 w;
          w = gpio_output RST_PIN True w
      in time_sleep 0.2 w)"

text \<open>Lines 59-105. The result is the returned flag and the state reached.\<close>

definition init :: "(real \<Rightarrow> bool) \<Rightarrow> world \<Rightarrow> bool \<times> world" where
  "init busy w =
     (let w = gpio_cleanup w;
          w = gpio_setup RST_PIN True w;
          w = gpio_setup DC_PIN True w;
          w = gpio_setup CS_PIN True w;
          w = gpio_setup BUSY_PIN False w;
          w = gpio_output CS_PIN True w;
          w = gpio_output DC_PIN False w;
          w = gpio_output RST_PIN True w;
          w = reset w;
          w = send_command 0x04 w;
          (ready, w) = wait_until_idle busy 10 w
      in if \<not> ready then (False, w)
         else
           (let w = send_command 0x00 w;
                w = send_data 0x2f w;
                w = send_data 0x00 w;
                w = send_command 0x61 w;
                w = send_data (drop_bit 8 (int EPD_WIDTH)) w;
                w = send_data (int EPD_WIDTH AND 0xff) w;
                w = send_data (drop_bit 8 (int EPD_HEIGHT)) w;
                w = send_data (int EPD_HEIGHT AND 0xff) w
            in (True, w)))"

text \<open>Lines 209-220. The outcome of the wait only selects a console message.\<close>

definition refresh :: "(real \<Rightarrow> bool) \<Rightarrow> world \<Rightarrow> world" where
  "refresh busy w =
     (let w = send_command 0x12 w;
          w = time_sleep 0.1 w;
          (ready, w) = wait_until_idle busy 45 w
      in w)"

text \<open>Lines 222-229.\<close>

definition sleep :: "(real \<Rightarrow> bool) \<Rightarrow> world \<Rightarrow> world" where
  "sleep busy w =
     (let w = send_command 0x02 w;
          (ready, w) = wait_until_idle busy 5 w;
          w = send_command 0x07 w
      in send_data 0xA5 w)"

text \<open>Lines 231-240.\<close>

definition cleanup :: "world \<Rightarrow> world" where
  "cleanup w = gpio_cleanup (emit SpiClose w)"

subsection \<open>Clearing and the test pattern\<close>

text \<open>
  \<^verbatim>\<open>range(start, stop, step)\<close> for a positive step, and \<^verbatim>\<open>range(n)\<close> as
  \<open>[0..<n]\<close>; a \<^verbatim>\<open>for\<close> loop over a range is a \<open>fold\<close> over that list.
\<close>

definition range_step :: "nat \<Rightarrow> nat \<Rightarrow> nat \<Rightarrow> nat list" where
  "range_step start stop step =
     map (\<lambda>k. start + k * step) [0..<(stop - start + step - 1) div step]"

text \<open>Lines 116-138.\<close>

definition clear :: "(real \<Rightarrow> bool) \<Rightarrow> world \<Rightarrow> world" where
  "clear busy w =
     (let w = send_command 0x10 w;
          total_pixels = EPD_WIDTH * EPD_HEIGHT div 4;
          w = fold (\<lambda>i w. send_data 0x11 w) [0..<total_pixels] w;
          w = send_command 0x13 w;
          w = fold (\<lambda>i w. send_data 0x11 w) [0..<total_pixels] w
      in refresh busy w)"

text \<open>Lines 144-145.\<close>

definition rect_height :: nat where "rect_height = EPD_HEIGHT div 6"
definition pixels_per_byte :: nat where "pixels_per_byte = 4"

text \<open>The colour chosen for row \<open>y\<close> in the first loop nest (lines 157-168).\<close>

definition color :: "nat \<Rightarrow> int" where
  "color y =
     (if y < rect_height then 0x0
      else if y < rect_height * 2 then 0x1
      else if y < rect_height * 3 then 0x2
      else if y < rect_height * 4 then 0x3
      else if y < rect_height * 5 then 0x4
      else 0x5)"

text \<open>
  The innermost loop of the first nest (lines 153-170): the value of \<^verbatim>\<open>pixel_data\<close>
  handed to \<^verbatim>\<open>_send_data\<close>, a Python integer.
\<close>

definition pixel_data :: "nat \<Rightarrow> int" where
  "pixel_data y = fold (\<lambda>p pd. pd OR push_bit (6 - p * 2) (color y)) [0..<pixels_per_byte] 0"

text \<open>The second loop nest repeats the text of the first (lines 186-199).\<close>

definition color2 :: "nat \<Rightarrow> int" where
  "color2 y =
     (if y < rect_height then 0x0
      else if y < rect_height * 2 then 0x1
      else if y < rect_height * 3 then 0x2
      else if y < rect_height * 4 then 0x3
      else if y < rect_height * 5 then 0x4
      else 0x5)"

definition pixel_data2 :: "nat \<Rightarrow> int" where
  "pixel_data2 y = fold (\<lambda>p pd. pd OR push_bit (6 - p * 2) (color2 y)) [0..<pixels_per_byte] 0"

text \<open>Lines 140-207.\<close>

definition draw_test_pattern :: "(real \<Rightarrow> bool) \<Rightarrow> world \<Rightarrow> world" where
  "draw_test_pattern busy w =
     (let w = send_command 0x10 w;
          w = fold (\<lambda>y w. fold (\<lambda>x w. send_data (pixel_data y) w)
                             (range_step 0 EPD_WIDTH pixels_per_byte) w)
                   [0..<EPD_HEIGHT] w;
          w = send_command 0x13 w;
          w = fold (\<lambda>y w. fold (\<lambda>x w. send_data (pixel_data2 y) w)
                             (range_step 0 EPD_WIDTH pixels_per_byte) w)
                   [0..<EPD_HEIGHT] w
      in refresh busy w)"

subsection \<open>The script's entry point\<close>

text \<open>
  Lines 242-307, with the constructor (lines 24-28) opening the SPI device. The
  \<^verbatim>\<open>finally\<close> clause runs \<open>cleanup\<close> on both ways out. Exceptions raised by the
  hardware libraries are outside the model.
\<close>

definition main :: "(real \<Rightarrow> bool) \<Rightarrow> world \<Rightarrow> bool \<times> world" where
  "main busy w =
     (let w = emit SpiOpen w;
          (ok, w) = init busy w
      in if \<not> ok then (False, cleanup w)
         else
           (let w = time_sleep 2 w;
                w = clear busy w;
                w = time_sleep 10 w;
                w = draw_test_pattern busy w;
                w = sleep busy w
            in (True, cleanup w)))"

section \<open>The flag cache of \<^verbatim>\<open>fetch_flags.py\<close>\<close>

subsection \<open>Python values and exceptions\<close>

text \<open>
  The value \<^verbatim>\<open>response.json()\<close> returns: \<^verbatim>\<open>None\<close>, a bool, a number, a \<^verbatim>\<open>str\<close>,
  a list or a dict (its items in iteration order, keys distinct). No statement of the
  script inspects a number, so an integer stands for any of them.
\<close>

datatype json =
    JNull
  | JBool bool
  | JNum int
  | JStr string
  | JArr "json list"
  | JObj "(string \<times> json) list"

datatype py_error =
    AttributeError
  | IndexError
  | KeyError
  | TypeError
  | RequestException
  | JSONDecodeError
  | ImageError
  | OSError

definition and_then :: "'e + 'a \<Rightarrow> ('a \<Rightarrow> 'e + 'b) \<Rightarrow> 'e + 'b" where
  "and_then m f = (case m of Inl e \<Rightarrow> Inl e | Inr x \<Rightarrow> f x)"

text \<open>\<^verbatim>\<open>d.get(key, default)\<close>: only a dict has the method.\<close>

definition dict_get :: "json \<Rightarrow> string \<Rightarrow> json \<Rightarrow> py_error + json" where
  "dict_get d key dflt =
     (case d of
        JObj kvs \<Rightarrow> Inr (case map_of kvs key of Some v \<Rightarrow> v | None \<Rightarrow> dflt)
      | _ \<Rightarrow> Inl AttributeError)"

text \<open>\<^verbatim>\<open>v[0]\<close>. The keys of a decoded JSON object are strings, so \<open>0\<close> is never one.\<close>

definition subscript0 :: "json \<Rightarrow> py_error + json" where
  "subscript0 v =
     (case v of
        JArr xs \<Rightarrow> (case xs of [] \<Rightarrow> Inl IndexError | x # _ \<Rightarrow> Inr x)
      | JStr s \<Rightarrow> (case s of [] \<Rightarrow> Inl IndexError | c # _ \<Rightarrow> Inr (JStr [c]))
      | JObj kvs \<Rightarrow> Inl KeyError
      | _ \<Rightarrow> Inl TypeError)"

text \<open>\<^verbatim>\<open>d.values()\<close> and \<^verbatim>\<open>d.items()\<close>.\<close>

definition dict_values :: "json \<Rightarrow> py_error + json list" where
  "dict_values d = (case d of JObj kvs \<Rightarrow> Inr (map snd kvs) | _ \<Rightarrow> Inl AttributeError)"

definition dict_items :: "json \<Rightarrow> py_error + (string \<times> json) list" where
  "dict_items d = (case d of JObj kvs \<Rightarrow> Inr kvs | _ \<Rightarrow> Inl AttributeError)"

text \<open>Iterating a value: the elements of a list, the characters of a string, the keys of a dict.\<close>

definition py_iter :: "json \<Rightarrow> py_error + json list" where
  "py_iter v =
     (case v of
        JArr xs \<Rightarrow> Inr xs
      | JStr s \<Rightarrow> Inr (map (\<lambda>c. JStr [c]) s)
      | JObj kvs \<Rightarrow> Inr (map (\<lambda>kv. JStr (fst kv)) kvs)
      | _ \<Rightarrow> Inl TypeError)"

text \<open>\<^verbatim>\<open>sep.join(xs)\<close>: every element has to be a \<^verbatim>\<open>str\<close>.\<close>

fun intercalate :: "string \<Rightarrow> string list \<Rightarrow> string" where
  "intercalate sep [] = []"
| "intercalate sep [x] = x"
| "intercalate sep (x # y # ys) = x @ sep @ intercalate sep (y # ys)"

fun the_strs :: "json list \<Rightarrow> py_error + string list" where
  "the_strs [] = Inr []"
| "the_strs (JStr s # vs) = and_then (the_strs vs) (\<lambda>ss. Inr (s # ss))"
| "the_strs (v # vs) = Inl TypeError"

definition str_join :: "string \<Rightarrow> json list \<Rightarrow> py_error + string" where
  "str_join sep vs = and_then (the_strs vs) (\<lambda>ss. Inr (intercalate sep ss))"

fun map_e :: "('a \<Rightarrow> 'e + 'b) \<Rightarrow> 'a list \<Rightarrow> 'e + 'b list" where
  "map_e f [] = Inr []"
| "map_e f (x # xs) = and_then (f x) (\<lambda>y. and_then (map_e f xs) (\<lambda>ys. Inr (y # ys)))"

text \<open>\<^verbatim>\<open>s.endswith(suffix)\<close> and \<^verbatim>\<open>s.replace(" ", "_")\<close> on a \<^verbatim>\<open>str\<close>.\<close>

definition str_endswith :: "json \<Rightarrow> string \<Rightarrow> py_error + bool" where
  "str_endswith v suf =
     (case v of
        JStr s \<Rightarrow> Inr (length suf \<le> length s \<and> drop (length s - length suf) s = suf)
      | _ \<Rightarrow> Inl AttributeError)"

definition replace_space :: "string \<Rightarrow> string" where
  "replace_space s = map (\<lambda>c. if c = CHR '' '' then CHR ''_'' else c) s"

text \<open>\<^verbatim>\<open>os.path.join(a, b)\<close> on POSIX.\<close>

definition os_path_join :: "string \<Rightarrow> string \<Rightarrow> string" where
  "os_path_join a b =
     (if b \<noteq> [] \<and> hd b = CHR ''/'' then b
      else if a = [] \<or> last a = CHR ''/'' then a @ b
      else a @ ''/'' @ b)"

subsection \<open>Images and files\<close>

text \<open>
  An element of \<^verbatim>\<open>img.getdata()\<close> is a 3-tuple for an RGB image, a 4-tuple for RGBA and
  an integer for a single-band image. An image is its size and its pixel at each
  coordinate; \<open>getdata\<close> lists the pixels row by row.
\<close>

datatype pixel = RGB nat nat nat | RGBA nat nat nat nat | Band nat

record image =
  width :: nat
  height :: nat
  pixel_at :: "nat \<Rightarrow> nat \<Rightarrow> pixel"

definition getdata :: "image \<Rightarrow> pixel list" where
  "getdata img =
     map (\<lambda>i. pixel_at img (i mod width img) (i div width img)) [0..<width img * height img]"

datatype content = ImageFile image | JsonFile json | OtherFile string

datatype message = Failed_to_process json py_error | Failed_to_fetch py_error

text \<open>
  The state the script works on: the files by path, the arguments of the calls of
  \<^verbatim>\<open>requests.get\<close> so far, and of the console output the two failure messages (lines
  131 and 139).
\<close>

record fstate =
  files :: "string \<rightharpoonup> content"
  http_log :: "json list"
  console :: "message list"

text \<open>
  What the script calls but does not define is a parameter: the network
  (\<open>http_get\<close>: \<^verbatim>\<open>requests.get\<close> followed by \<^verbatim>\<open>raise_for_status\<close>, returning the
  body), \<^verbatim>\<open>response.json()\<close>, \<^verbatim>\<open>cairosvg.svg2png\<close>, Pillow's decoder
  \<^verbatim>\<open>Image.open(BytesIO(...))\<close>, \<^verbatim>\<open>Image.thumbnail\<close>, the conversion to RGB that
  \<^verbatim>\<open>paste\<close> applies to the pasted pixels, whether a path can be opened for writing,
  \<^verbatim>\<open>str.lower\<close> and \<^verbatim>\<open>str()\<close> of a decoded value inside an f-string.
\<close>

record env =
  http_get :: "json \<Rightarrow> py_error + string"
  json_loads :: "string \<Rightarrow> py_error + json"
  svg2png :: "string \<Rightarrow> nat \<Rightarrow> nat \<Rightarrow> py_error + string"
  image_decode :: "string \<Rightarrow> py_error + image"
  thumbnail :: "nat \<times> nat \<Rightarrow> image \<Rightarrow> image"
  to_rgb :: "pixel \<Rightarrow> pixel"
  writable :: "string \<Rightarrow> bool"
  str_lower :: "string \<Rightarrow> string"
  py_str :: "json \<Rightarrow> string"

definition FLAGS_DIR :: string where "FLAGS_DIR = ''server/flags''"
definition INFO_DIR :: string where "INFO_DIR = ''server/info''"
definition REST_COUNTRIES_API :: string where
  "REST_COUNTRIES_API = ''https://restcountries.com/v3.1/all''"

text \<open>Lines 29-30 and 71.\<close>

definition screen_width :: nat where "screen_width = 800"
definition screen_height :: nat where "screen_height = 480"
definition background_color :: pixel where "background_color = RGB 255 255 255"

subsection \<open>Reading a country\<close>

text \<open>The local variables of lines 35-52.\<close>

record fields =
  country_name :: json
  official_name :: json
  flag_url :: json
  population :: json
  area :: json
  capital :: json
  region :: json
  subregion :: json
  languages :: string
  currencies :: string
  timezone :: string
  borders :: string
  country_id :: string

text \<open>\<^verbatim>\<open>country.get(k1, {}).get(k2, default)\<close>.\<close>

definition get2 :: "json \<Rightarrow> string \<Rightarrow> string \<Rightarrow> json \<Rightarrow> py_error + json" where
  "get2 country k1 k2 dflt = and_then (dict_get country k1 (JObj [])) (\<lambda>d. dict_get d k2 dflt)"

text \<open>The generator of lines 45-46: \<^verbatim>\<open>f"{details.get('name')} ({code})"\<close> for one item.\<close>

definition currency_text :: "env \<Rightarrow> string \<times> json \<Rightarrow> py_error + json" where
  "currency_text env item =
     and_then (dict_get (snd item) ''name'' JNull)
       (\<lambda>name. Inr (JStr (py_str env name @ '' ('' @ fst item @ '')'')))"

text \<open>\<^verbatim>\<open>country_name.lower().replace(" ", "_")\<close>: only a \<^verbatim>\<open>str\<close> has \<^verbatim>\<open>lower\<close>.\<close>

definition make_id :: "env \<Rightarrow> json \<Rightarrow> py_error + string" where
  "make_id env name =
     (case name of JStr s \<Rightarrow> Inr (replace_space (str_lower env s)) | _ \<Rightarrow> Inl AttributeError)"

definition extract_fields :: "env \<Rightarrow> json \<Rightarrow> py_error + fields" where
  "extract_fields env country =
     and_then (get2 country ''name'' ''common'' (JStr ''Unknown'')) (\<lambda>country_name.
     and_then (get2 country ''name'' ''official'' (JStr ''Unknown'')) (\<lambda>official_name.
     and_then (get2 country ''flags'' ''svg'' (JStr [])) (\<lambda>flag_url.
     and_then (dict_get country ''population'' (JNum 0)) (\<lambda>population.
     and_then (dict_get country ''area'' (JNum 0)) (\<lambda>area.
     and_then (and_then (dict_get country ''capital'' (JArr [JStr ''Unknown''])) subscript0) (\<lambda>capital.
     and_then (dict_get country ''region'' (JStr ''Unknown'')) (\<lambda>region.
     and_then (dict_get country ''subregion'' (JStr ''Unknown'')) (\<lambda>subregion.
     and_then (and_then (and_then (dict_get country ''languages'' (JObj [])) dict_values)
                 (str_join '', '')) (\<lambda>languages.
     and_then (and_then (and_then (and_then (dict_get country ''currencies'' (JObj [])) dict_items)
                 (map_e (currency_text env))) (str_join '', '')) (\<lambda>currencies.
     and_then (and_then (and_then (dict_get country ''timezones'' (JArr [])) py_iter)
                 (str_join '', '')) (\<lambda>timezone.
     and_then (and_then (and_then (dict_get country ''borders'' (JArr [])) py_iter)
                 (str_join '', '')) (\<lambda>borders.
     and_then (make_id env country_name) (\<lambda>country_id.
       Inr \<lparr>country_name = country_name, official_name = official_name, flag_url = flag_url,
            population = population, area = area, capital = capital, region = region,
            subregion = subregion, languages = languages, currencies = currencies,
            timezone = timezone, borders = borders, country_id = country_id\<rparr>)))))))))))))"

text \<open>The dict of lines 110-122, which \<^verbatim>\<open>json.dump\<close> writes.\<close>

definition metadata :: "fields \<Rightarrow> json" where
  "metadata f =
     JObj [(''country'', country_name f),
           (''official_name'', official_name f),
           (''population'', population f),
           (''area'', area f),
           (''capital'', capital f),
           (''region'', region f),
           (''subregion'', subregion f),
           (''languages'', JStr (languages f)),
           (''currencies'', JStr (currencies f)),
           (''timezones'', JStr (timezone f)),
           (''borders'', JStr (borders f))]"

subsection \<open>Checking the cached flag\<close>

definition os_path_exists :: "(string \<rightharpoonup> content) \<Rightarrow> string \<Rightarrow> bool" where
  "os_path_exists fs path = (fs path \<noteq> None)"

text \<open>\<^verbatim>\<open>Image.open(path)\<close> and the reads that follow: they succeed on an image file only.\<close>

definition image_open :: "(string \<rightharpoonup> content) \<Rightarrow> string \<Rightarrow> py_error + image" where
  "image_open fs path = (case fs path of Some (ImageFile img) \<Rightarrow> Inr img | _ \<Rightarrow> Inl ImageError)"

text \<open>
  Lines 56-83: the value of \<^verbatim>\<open>flag_needs_update\<close> when line 85 is reached. The sum
  over the \<^verbatim>\<open>Counter\<close> of the counts of the colours other than the background is the
  number of pixels other than the background. The quotient is the true division of the
  two integers.
\<close>

definition flag_needs_update :: "(string \<rightharpoonup> content) \<Rightarrow> string \<Rightarrow> bool" where
  "flag_needs_update fs bmp_path =
     (if os_path_exists fs bmp_path then
        (case image_open fs bmp_path of
           Inl e \<Rightarrow> True
         | Inr img \<Rightarrow>
             (let pixels = getdata img in
              if width img \<noteq> screen_width \<or> height img \<noteq> screen_height then True
              else
                (let non_background_pixels = length (filter (\<lambda>c. c \<noteq> background_color) pixels)
                 in if (of_nat non_background_pixels :: rat) / of_nat (width img * height img) < 1 / 2
                    then True else False)))
      else True)"

subsection \<open>Rendering and saving\<close>

text \<open>\<^verbatim>\<open>Image.new("RGB", size, color)\<close>.\<close>

definition image_new :: "nat \<times> nat \<Rightarrow> pixel \<Rightarrow> image" where
  "image_new dims c = \<lparr>width = fst dims, height = snd dims, pixel_at = (\<lambda>x y. c)\<rparr>"

text \<open>
  \<^verbatim>\<open>canvas.paste(img, (x, y))\<close>: the pixels of \<open>img\<close>, converted to the mode of the
  canvas, replace those of the canvas in the box whose upper left corner is \<open>(x, y)\<close>;
  what falls outside the canvas is dropped, and the size of the canvas stays.
\<close>

definition paste :: "env \<Rightarrow> image \<Rightarrow> image \<Rightarrow> int \<times> int \<Rightarrow> image" where
  "paste env canvas img box =
     canvas\<lparr>pixel_at := (\<lambda>x y.
        if fst box \<le> int x \<and> int x < fst box + int (width img) \<and>
           snd box \<le> int y \<and> int y < snd box + int (height img)
        then to_rgb env (pixel_at img (nat (int x - fst box)) (nat (int y - snd box)))
        else pixel_at canvas x y)\<rparr>"

text \<open>Lines 91-99: decoding the downloaded flag.\<close>

definition load_image :: "env \<Rightarrow> json \<Rightarrow> string \<Rightarrow> py_error + image" where
  "load_image env url body =
     and_then (str_endswith url ''.svg'') (\<lambda>is_svg.
       if is_svg then
         and_then (svg2png env body screen_width screen_height) (image_decode env)
       else image_decode env body)"

text \<open>Lines 101-106: the canvas that is saved.\<close>

definition render :: "env \<Rightarrow> image \<Rightarrow> image" where
  "render env img0 =
     (let img = thumbnail env (screen_width, screen_height) img0;
          canvas = image_new (screen_width, screen_height) (RGB 255 255 255);
          x_offset = (int screen_width - int (width img)) div 2;
          y_offset = (int screen_height - int (height img)) div 2
      in paste env canvas img (x_offset, y_offset))"

text \<open>Writing a file: \<^verbatim>\<open>canvas.save\<close> (line 107) and \<^verbatim>\<open>open(.., "w")\<close> with \<^verbatim>\<open>json.dump\<close>.\<close>

definition write_file :: "env \<Rightarrow> string \<Rightarrow> content \<Rightarrow> fstate \<Rightarrow> (py_error + unit) \<times> fstate" where
  "write_file env path c st =
     (if writable env path then (Inr (), st\<lparr>files := (files st)(path \<mapsto> c)\<rparr>)
      else (Inl OSError, st))"

text \<open>Lines 86-107, run when \<^verbatim>\<open>flag_needs_update\<close> holds.\<close>

definition update_flag :: "env \<Rightarrow> fields \<Rightarrow> string \<Rightarrow> fstate \<Rightarrow> (py_error + unit) \<times> fstate" where
  "update_flag env f bmp_path st =
     (let st = st\<lparr>http_log := http_log st @ [flag_url f]\<rparr> in
      case http_get env (flag_url f) of
        Inl e \<Rightarrow> (Inl e, st)
      | Inr body \<Rightarrow>
          (case load_image env (flag_url f) body of
             Inl e \<Rightarrow> (Inl e, st)
           | Inr img \<Rightarrow> write_file env bmp_path (ImageFile (render env img)) st))"

subsection \<open>One country, and all of them\<close>

text \<open>
  The body of the inner \<^verbatim>\<open>try\<close> (lines 34-128): the exception that leaves it, or the
  entry appended to \<^verbatim>\<open>index_data\<close>.
\<close>

definition process_country :: "env \<Rightarrow> json \<Rightarrow> fstate \<Rightarrow> (py_error + string) \<times> fstate" where
  "process_country env country st =
     (case extract_fields env country of
        Inl e \<Rightarrow> (Inl e, st)
      | Inr f \<Rightarrow>
          (let bmp_path = os_path_join FLAGS_DIR (country_id f @ ''.bmp'') in
           case (if flag_needs_update (files st) bmp_path then update_flag env f bmp_path st
                 else (Inr (), st)) of
             (Inl e, st) \<Rightarrow> (Inl e, st)
           | (Inr u, st) \<Rightarrow>
               (let json_path = os_path_join INFO_DIR (country_id f @ ''.json'') in
                case write_file env json_path (JsonFile (metadata f)) st of
                  (Inl e, st) \<Rightarrow> (Inl e, st)
                | (Inr u, st) \<Rightarrow> (Inr (country_id f @ ''.json''), st))))"

text \<open>
  The \<^verbatim>\<open>for\<close> loop of lines 32-131 with its handler. The handler's message evaluates
  \<^verbatim>\<open>country.get('name', {}).get('common', 'Unknown')\<close> again; an exception raised there
  leaves the loop.
\<close>

fun for_countries :: "env \<Rightarrow> json list \<Rightarrow> string list \<Rightarrow> fstate \<Rightarrow> (py_error + string list) \<times> fstate" where
  "for_countries env [] index_data st = (Inr index_data, st)"
| "for_countries env (country # rest) index_data st =
     (case process_country env country st of
        (Inr entry, st) \<Rightarrow> for_countries env rest (index_data @ [entry]) st
      | (Inl e, st) \<Rightarrow>
          (case get2 country ''name'' ''common'' (JStr ''Unknown'') of
             Inl e' \<Rightarrow> (Inl e', st)
           | Inr name \<Rightarrow>
               for_countries env rest index_data
                 (st\<lparr>console := console st @ [Failed_to_process name e]\<rparr>)))"

text \<open>Lines 20-139. The outer handler prints and returns.\<close>

definition fetch_and_save_flags :: "env \<Rightarrow> fstate \<Rightarrow> fstate" where
  "fetch_and_save_flags env st =
     (let st = st\<lparr>http_log := http_log st @ [JStr REST_COUNTRIES_API]\<rparr> in
      case and_then (and_then (http_get env (JStr REST_COUNTRIES_API)) (json_loads env)) py_iter of
        Inl e \<Rightarrow> st\<lparr>console := console st @ [Failed_to_fetch e]\<rparr>
      | Inr countries \<Rightarrow>
          (case for_countries env countries [] st of
             (Inl e, st) \<Rightarrow> st\<lparr>console := console st @ [Failed_to_fetch e]\<rparr>
           | (Inr index_data, st) \<Rightarrow>
               (case write_file env (os_path_join INFO_DIR ''index.json'')
                       (JsonFile (JArr (map JStr index_data))) st of
                  (Inl e, st) \<Rightarrow> st\<lparr>console := console st @ [Failed_to_fetch e]\<rparr>
                | (Inr u, st) \<Rightarrow> st)))"

section \<open>Reading a trace\<close>

text \<open>
  What the panel sees of a trace: the bytes transferred with their DC level; the command
  bytes, which are those transferred with DC low; and the panel operations, which are
  the levels driven on the reset line and the command bytes, in order.
\<close>

fun xfer_of :: "event \<Rightarrow> (bool \<times> int) list" where
  "xfer_of (SpiXfer dc v) = [(dc, v)]"
| "xfer_of e = []"

definition xfers :: "event list \<Rightarrow> (bool \<times> int) list" where
  "xfers tr = concat (map xfer_of tr)"

definition commands :: "event list \<Rightarrow> int list" where
  "commands tr = map snd (filter (\<lambda>x. \<not> fst x) (xfers tr))"

datatype panel_op = Rst bool | Cmd int

fun op_of :: "event \<Rightarrow> panel_op list" where
  "op_of (GpioOut pin lvl) = (if pin = RST_PIN then [Rst lvl] else [])"
| "op_of (SpiXfer dc v) = (if dc then [] else [Cmd v])"
| "op_of e = []"

definition panel_ops :: "event list \<Rightarrow> panel_op list" where
  "panel_ops tr = concat (map op_of tr)"

text \<open>
  The discipline of the DC line on a trace: every transfer comes directly after the DC
  pin has been driven, to the level the transfer is made with. In \<open>dc_after prev es\<close>,
  \<open>prev\<close> is the level the event just before \<open>es\<close> drove the DC pin to, if it did.
\<close>

fun dc_after :: "bool option \<Rightarrow> event list \<Rightarrow> bool" where
  "dc_after prev [] = True"
| "dc_after prev (SpiXfer dc v # es) = (prev = Some dc \<and> dc_after None es)"
| "dc_after prev (GpioOut pin lvl # es) = dc_after (if pin = DC_PIN then Some lvl else None) es"
| "dc_after prev (e # es) = dc_after None es"

definition dc_driven :: "event list \<Rightarrow> bool" where
  "dc_driven tr = dc_after None tr"

text \<open>The two-bit slot of pixel \<open>p\<close> in a packed value: bits \<open>7 - 2p\<close> and \<open>6 - 2p\<close>.\<close>

definition slot :: "nat \<Rightarrow> int \<Rightarrow> int" where
  "slot p v = take_bit 2 (drop_bit (6 - p * 2) v)"

text \<open>
  The times at which \<open>wait_loop\<close>, entered in state \<open>w\<close>, reads the BUSY pin, for as long
  as it goes on reading: the first read is made at once, each further one after a sleep
  of 0.1 s.
\<close>

fun poll_time :: "world \<Rightarrow> nat \<Rightarrow> real" where
  "poll_time w 0 = now w"
| "poll_time w (Suc k) = poll_time w k + 0.1 + \<bar>overshoot w (poll_time w k)\<bar>"

declare poll_time.simps(2) [simp del]

text \<open>
  A state before the script has run: no pin driven, the clock at 0, nothing traced; the
  clock moves on by \<open>late\<close> seconds more than asked with every sleep.
\<close>

definition world_late :: "real \<Rightarrow> world" where
  "world_late late = \<lparr>level = (\<lambda>pin. False), now = 0, overshoot = (\<lambda>t. late), trace = []\<rparr>"

definition world0 :: world where
  "world0 = world_late 0"

section \<open>Positions in a run of \<^verbatim>\<open>fetch_and_save_flags\<close>\<close>

text \<open>
  \<open>reaches env st countries i index_data s\<close>: in the run of \<open>fetch_and_save_flags\<close> from
  the state \<open>st\<close> the API answers with the list \<open>countries\<close>, and the loop gets past the
  first \<open>i\<close> of them; it is then in the state \<open>s\<close> and has collected \<open>index_data\<close>. It
  gets there unless the handler itself raises on the way.
\<close>

definition reaches :: "env \<Rightarrow> fstate \<Rightarrow> json list \<Rightarrow> nat \<Rightarrow> string list \<Rightarrow> fstate \<Rightarrow> bool" where
  "reaches env st countries i index_data s =
     (and_then (and_then (http_get env (JStr REST_COUNTRIES_API)) (json_loads env)) py_iter =
        Inr countries \<and>
      i \<le> length countries \<and>
      for_countries env (take i countries) []
        (st\<lparr>http_log := http_log st @ [JStr REST_COUNTRIES_API]\<rparr>) = (Inr index_data, s))"

section \<open>Sample inputs\<close>

text \<open>
  Concrete inputs on which the theorems below are exercised: an empty file system; a
  country as the API describes Norway, and the fields read from it; a country that has
  \<^verbatim>\<open>null\<close> for its name; a red image of screen size, and a file system that holds
  it as Norway's flag; an image of 101 by 50 pixels; and an environment in which every
  request succeeds, the API answers with the nameless country followed by Norway, a
  flag decodes to the red image, \<open>thumbnail\<close> leaves an image as it is, every path can
  be written, and \<^verbatim>\<open>lower\<close> maps the ASCII capitals.
\<close>

definition ascii_lower :: "string \<Rightarrow> string" where
  "ascii_lower s =
     map (\<lambda>c. case map_of (zip ''ABCDEFGHIJKLMNOPQRSTUVWXYZ'' ''abcdefghijklmnopqrstuvwxyz'') c of
                Some l \<Rightarrow> l | None \<Rightarrow> c) s"

definition st0 :: fstate where
  "st0 = \<lparr>files = Map.empty, http_log = [], console = []\<rparr>"

definition norway :: json where
  "norway =
     JObj [(''name'', JObj [(''common'', JStr ''Norway''), (''official'', JStr ''Kingdom of Norway'')]),
           (''flags'', JObj [(''svg'', JStr ''https://flagcdn.com/no.svg'')]),
           (''population'', JNum 5379475),
           (''capital'', JArr [JStr ''Oslo'']),
           (''region'', JStr ''Europe''),
           (''languages'', JObj [(''nno'', JStr ''Norwegian Nynorsk''), (''nob'', JStr ''Norwegian'')]),
           (''timezones'', JArr [JStr ''UTC+01:00'']),
           (''borders'', JArr [JStr ''FIN'', JStr ''SWE'', JStr ''RUS''])]"

definition norway_fields :: fields where
  "norway_fields =
     \<lparr>country_name = JStr ''Norway'', official_name = JStr ''Kingdom of Norway'',
      flag_url = JStr ''https://flagcdn.com/no.svg'', population = JNum 5379475, area = JNum 0,
      capital = JStr ''Oslo'', region = JStr ''Europe'', subregion = JStr ''Unknown'',
      languages = ''Norwegian Nynorsk, Norwegian'', currencies = [], timezone = ''UTC+01:00'',
      borders = ''FIN, SWE, RUS'', country_id = ''norway''\<rparr>"

definition nameless :: json where
  "nameless = JObj [(''name'', JNull), (''capital'', JArr [JStr ''Nowhere''])]"

definition red_flag :: image where
  "red_flag = image_new (800, 480) (RGB 255 0 0)"


definition small_flag :: image where
  "small_flag = \<lparr>width = 101, height = 50, pixel_at = (\<lambda>x y. RGB 0 0 (x + y))\<rparr>"

definition sample_env :: env where
  "sample_env =
     \<lparr>http_get = (\<lambda>url. Inr ''body''),
      json_loads = (\<lambda>body. Inr (JArr [nameless, norway])),
      svg2png = (\<lambda>body w h. Inr ''png''),
      image_decode = (\<lambda>body. Inr red_flag),
      thumbnail = (\<lambda>dims img. img),
      to_rgb = (\<lambda>c. c),
      writable = (\<lambda>path. True),
      str_lower = ascii_lower,
      py_str = (\<lambda>v. case v of JStr s \<Rightarrow> s | _ \<Rightarrow> ''None'')\<rparr>"





section \<open>Properties of the pin assignments\<close>

text \<open>
  Claim C8. The scripts give the same role different pins: \<^verbatim>\<open>epaper_test.py\<close> and
  \<^verbatim>\<open>display_diagnostic.py\<close> have reset on 17, data/command on 25 and busy on 24,
  \<^verbatim>\<open>simple_test.py\<close> has them on 11, 22 and 18, so for each of the three roles the
  constant of \<^verbatim>\<open>simple_test.py\<close> differs from the one of \<^verbatim>\<open>epaper_test.py\<close>.
\<close>

theorem conflicting_pin_assignments:
  "RST_PIN = 17 \<and> DC_PIN = 25 \<and> BUSY_PIN = 24 \<and>
   display_diagnostic_RST_PIN = 17 \<and> display_diagnostic_DC_PIN = 25 \<and>
   display_diagnostic_BUSY_PIN = 24 \<and>
   simple_test_RST_PIN = 11 \<and> simple_test_DC_PIN = 22 \<and> simple_test_BUSY_PIN = 18 \<and>
   simple_test_RST_PIN \<noteq> RST_PIN \<and> simple_test_DC_PIN \<noteq> DC_PIN \<and>
   simple_test_BUSY_PIN \<noteq> BUSY_PIN"
  by (simp add: RST_PIN_def DC_PIN_def BUSY_PIN_def display_diagnostic_RST_PIN_def
      display_diagnostic_DC_PIN_def display_diagnostic_BUSY_PIN_def simple_test_RST_PIN_def
      simple_test_DC_PIN_def simple_test_BUSY_PIN_def)

section \<open>Properties of the display driver\<close>

subsection \<open>Effects of the primitive operations\<close>

lemma trace_emit [simp]: "trace (emit e w) = trace w @ [e]"
  and level_emit [simp]: "level (emit e w) = level w"
  and now_emit [simp]: "now (emit e w) = now w"
  and overshoot_emit [simp]: "overshoot (emit e w) = overshoot w"
  by (simp_all add: emit_def)

lemma time_sleep_simps [simp]:
  "trace (time_sleep d w) = trace w" "level (time_sleep d w) = level w"
  "overshoot (time_sleep d w) = overshoot w"
  "now (time_sleep d w) = now w + d + \<bar>overshoot w (now w)\<bar>"
  by (simp_all add: time_sleep_def)

lemma gpio_output_simps [simp]:
  "trace (gpio_output pin lvl w) = trace w @ [GpioOut pin lvl]"
  "level (gpio_output pin lvl w) = (level w)(pin := lvl)"
  "now (gpio_output pin lvl w) = now w"
  "overshoot (gpio_output pin lvl w) = overshoot w"
  by (simp_all add: gpio_output_def)

lemma gpio_setup_simps [simp]:
  "trace (gpio_setup pin out w) = trace w @ [GpioSetup pin out]"
  "now (gpio_setup pin out w) = now w"
  by (simp_all add: gpio_setup_def)

lemma gpio_cleanup_simps [simp]:
  "trace (gpio_cleanup w) = trace w @ [GpioCleanup]"
  "now (gpio_cleanup w) = now w"
  by (simp_all add: gpio_cleanup_def)

lemma trace_send_command:
  "trace (send_command c w) = trace w @ [GpioOut DC_PIN False, SpiXfer False c]"
  by (simp add: send_command_def spi_transfer_def)

lemma trace_send_data:
  "trace (send_data v w) = trace w @ [GpioOut DC_PIN True, SpiXfer True v]"
  by (simp add: send_data_def spi_transfer_def)

lemma now_send [simp]: "now (send_command c w) = now w" "now (send_data v w) = now w"
  by (simp_all add: send_command_def send_data_def spi_transfer_def)

subsection \<open>The busy wait\<close>

text \<open>The reads of the BUSY pin are at least 0.1 s apart.\<close>

lemma poll_time_now [simp]: "poll_time (w\<lparr>now := t\<rparr>) 0 = t"
  by simp

lemma poll_time_sleep: "poll_time (time_sleep 0.1 w) k = poll_time w (Suc k)"
  by (induction k) (simp_all add: poll_time.simps(2))




lemma sleep_as_update: "time_sleep 0.1 w = w\<lparr>now := poll_time w (Suc 0)\<rparr>"
  by (simp add: time_sleep_def poll_time.simps(2))

lemma poll_time_1: "poll_time w (Suc 0) = now (time_sleep 0.1 w)"
  by (simp add: poll_time.simps(2))

text \<open>
  A run of the loop: it returns after \<open>k\<close> sleeps, at the time \<open>poll_time w k\<close>, having
  changed nothing but the clock. The reads before that one found the line HIGH, and
  the time check after each earlier sleep did not fire. It returns \<open>True\<close> when the
  read at that time finds the line low, and \<open>False\<close> when the time check after the
  \<open>k\<close>-th sleep fires.
\<close>

lemma wait_loop_run:
  "\<exists>k. snd (wait_loop busy s t w) = w\<lparr>now := poll_time w k\<rparr> \<and>
        (\<forall>j<k. busy (poll_time w j)) \<and>
        (\<forall>j. 0 < j \<and> j < k \<longrightarrow> poll_time w j - s \<le> real t) \<and>
        (if fst (wait_loop busy s t w)
         then \<not> busy (poll_time w k) \<and> (k = 0 \<or> poll_time w k - s \<le> real t)
         else 0 < k \<and> real t < poll_time w k - s)"
proof (induction busy s t w rule: wait_loop.induct)
  case (1 busy s t w)
  show ?case
  proof (cases "busy (now w)")
    case False
    then have "wait_loop busy s t w = (True, w)" by (simp add: wait_loop.simps [of busy s t w])
    with False show ?thesis by (intro exI [of _ 0]) simp
  next
    case True
    let ?w = "time_sleep 0.1 w"
    show ?thesis
    proof (cases "now ?w - s > real t")
      case over: True
      with True have "wait_loop busy s t w = (False, ?w)"
        by (simp add: wait_loop.simps [of busy s t w] Let_def)
      moreover have "real t < poll_time w (Suc 0) - s" using over by (simp add: poll_time_1)
      ultimately show ?thesis
        using True by (intro exI [of _ "Suc 0"]) (simp add: sleep_as_update)
    next
      case under: False
      have step: "wait_loop busy s t w = wait_loop busy s t ?w"
        using True under by (simp add: wait_loop.simps [of busy s t w] Let_def)
      from "1.IH" [OF True refl under] obtain k where k:
        "snd (wait_loop busy s t ?w) = ?w\<lparr>now := poll_time ?w k\<rparr>"
        "\<forall>j<k. busy (poll_time ?w j)"
        "\<forall>j. 0 < j \<and> j < k \<longrightarrow> poll_time ?w j - s \<le> real t"
        "if fst (wait_loop busy s t ?w)
         then \<not> busy (poll_time ?w k) \<and> (k = 0 \<or> poll_time ?w k - s \<le> real t)
         else 0 < k \<and> real t < poll_time ?w k - s"
        by blast
      have first: "poll_time w (Suc 0) - s \<le> real t" using under by (simp add: poll_time_1)
      have e1: "poll_time ?w k = poll_time w (Suc k)" by (rule poll_time_sleep)
      have e2: "?w\<lparr>now := x\<rparr> = w\<lparr>now := x\<rparr>" for x by (simp add: time_sleep_def)
      have a: "snd (wait_loop busy s t w) = w\<lparr>now := poll_time w (Suc k)\<rparr>"
        by (simp only: step k(1) e1 e2)
      have b: "\<forall>j<Suc k. busy (poll_time w j)"
      proof (intro allI impI)
        fix j assume "j < Suc k"
        show "busy (poll_time w j)"
        proof (cases j)
          case 0
          with True show ?thesis by simp
        next
          case (Suc j')
          with \<open>j < Suc k\<close> k(2) have "busy (poll_time ?w j')" by simp
          with Suc show ?thesis by (simp only: poll_time_sleep)
        qed
      qed
      have c: "\<forall>j. 0 < j \<and> j < Suc k \<longrightarrow> poll_time w j - s \<le> real t"
      proof (intro allI impI)
        fix j assume j: "0 < j \<and> j < Suc k"
        then obtain j' where j': "j = Suc j'" by (cases j) auto
        show "poll_time w j - s \<le> real t"
        proof (cases j')
          case 0
          with j' first show ?thesis by simp
        next
          case (Suc i)
          with j j' k(3) have "poll_time ?w j' - s \<le> real t" by simp
          with j' show ?thesis by (simp only: poll_time_sleep)
        qed
      qed
      have d: "if fst (wait_loop busy s t w)
         then \<not> busy (poll_time w (Suc k)) \<and> (Suc k = 0 \<or> poll_time w (Suc k) - s \<le> real t)
         else 0 < Suc k \<and> real t < poll_time w (Suc k) - s"
      proof (cases "fst (wait_loop busy s t ?w)")
        case ready: True
        with k(4) have *: "\<not> busy (poll_time ?w k)" "k = 0 \<or> poll_time ?w k - s \<le> real t"
          by simp_all
        have "poll_time w (Suc k) - s \<le> real t"
        proof (cases "k = 0")
          case True
          with first show ?thesis by simp
        next
          case False
          with *(2) show ?thesis by (simp only: poll_time_sleep) simp
        qed
        with ready * step show ?thesis by (simp only: poll_time_sleep) simp
      next
        case False
        with k(4) step show ?thesis by (simp only: poll_time_sleep) simp
      qed
      from a b c d show ?thesis by blast
    qed
  qed
qed

text \<open>The wait drives no pin and transfers nothing.\<close>

lemma wait_until_idle_frame:
  "\<exists>k. snd (wait_until_idle busy secs w) = w\<lparr>now := poll_time w k\<rparr>"
  using wait_loop_run [of busy "now w" secs w] unfolding wait_until_idle_def by blast

lemma trace_wait_until_idle [simp]: "trace (snd (wait_until_idle busy secs w)) = trace w"
  using wait_until_idle_frame [of busy secs w] by auto

lemma level_wait_until_idle [simp]: "level (snd (wait_until_idle busy secs w)) = level w"
  using wait_until_idle_frame [of busy secs w] by auto

lemma overshoot_wait_until_idle [simp]:
  "overshoot (snd (wait_until_idle busy secs w)) = overshoot w"
  using wait_until_idle_frame [of busy secs w] by auto









lemma now_world_late [simp]: "now (world_late late) = 0"
  by (simp add: world_late_def)



subsection \<open>What a trace shows\<close>

lemma xfers_append [simp]: "xfers (a @ b) = xfers a @ xfers b"
  by (simp add: xfers_def)

lemma xfers_Nil [simp]: "xfers [] = []"
  by (simp add: xfers_def)

lemma xfers_Cons [simp]: "xfers (e # es) = xfer_of e @ xfers es"
  by (simp add: xfers_def)

lemma commands_append [simp]: "commands (a @ b) = commands a @ commands b"
  by (simp add: commands_def)

lemma panel_ops_append [simp]: "panel_ops (a @ b) = panel_ops a @ panel_ops b"
  by (simp add: panel_ops_def)

lemma panel_ops_Nil [simp]: "panel_ops [] = []"
  by (simp add: panel_ops_def)

lemma panel_ops_Cons [simp]: "panel_ops (e # es) = op_of e @ panel_ops es"
  by (simp add: panel_ops_def)

text \<open>The DC discipline is kept when traces that keep it are put one after the other.\<close>

lemma dc_after_weaken:
  assumes "dc_after None es"
  shows "dc_after prev es"
proof (cases es)
  case Nil
  then show ?thesis by simp
next
  case (Cons e es')
  with assms show ?thesis by (cases e) simp_all
qed

lemma dc_after_append: "dc_after prev a \<Longrightarrow> dc_after None b \<Longrightarrow> dc_after prev (a @ b)"
  by (induction prev a rule: dc_after.induct) (simp_all add: dc_after_weaken)

lemma dc_driven_append: "dc_driven a \<Longrightarrow> dc_driven b \<Longrightarrow> dc_driven (a @ b)"
  by (simp add: dc_driven_def dc_after_append)

lemma dc_driven_snoc:
  assumes "dc_driven a" and "xfer_of e = []"
  shows "dc_driven (a @ [e])"
proof -
  from assms(2) have "dc_driven [e]" by (cases e) (simp_all add: dc_driven_def)
  with assms(1) show ?thesis by (rule dc_driven_append)
qed

lemma dc_driven_send: "dc_driven a \<Longrightarrow> dc_driven (a @ [GpioOut DC_PIN lvl, SpiXfer lvl v])"
  by (rule dc_driven_append) (simp_all add: dc_driven_def)


subsection \<open>The trace of each method\<close>

lemma trace_reset:
  "trace (reset w) = trace w @ [GpioOut RST_PIN True, GpioOut RST_PIN False, GpioOut RST_PIN True]"
  by (simp add: reset_def Let_def)

lemma trace_refresh: "trace (refresh busy w) = trace w @ [GpioOut DC_PIN False, SpiXfer False 0x12]"
  by (simp add: refresh_def Let_def split_beta trace_send_command)

lemma trace_sleep:
  "trace (sleep busy w) =
     trace w @ [GpioOut DC_PIN False, SpiXfer False 0x02, GpioOut DC_PIN False, SpiXfer False 0x07,
                GpioOut DC_PIN True, SpiXfer True 0xA5]"
  by (simp add: sleep_def Let_def split_beta trace_send_command trace_send_data)

lemma trace_cleanup: "trace (cleanup w) = trace w @ [SpiClose, GpioCleanup]"
  by (simp add: cleanup_def)

lemma trace_fold_send_data:
  "trace (fold (\<lambda>x w. send_data v w) xs w) =
     trace w @ concat (replicate (length xs) [GpioOut DC_PIN True, SpiXfer True v])"
  by (induction xs arbitrary: w) (simp_all add: trace_send_data)

lemma trace_fold_rows:
  "trace (fold (\<lambda>y w. fold (\<lambda>x w. send_data (f y) w) xs w) ys w) =
     trace w @
     concat (map (\<lambda>y. concat (replicate (length xs) [GpioOut DC_PIN True, SpiXfer True (f y)])) ys)"
  by (induction ys arbitrary: w) (simp_all add: trace_fold_send_data)

lemma trace_init:
  "trace (snd (init busy w)) =
     trace w @
     [GpioCleanup, GpioSetup RST_PIN True, GpioSetup DC_PIN True, GpioSetup CS_PIN True,
      GpioSetup BUSY_PIN False, GpioOut CS_PIN True, GpioOut DC_PIN False, GpioOut RST_PIN True,
      GpioOut RST_PIN True, GpioOut RST_PIN False, GpioOut RST_PIN True,
      GpioOut DC_PIN False, SpiXfer False 0x04] @
     (if fst (init busy w) then
        [GpioOut DC_PIN False, SpiXfer False 0x00,
         GpioOut DC_PIN True, SpiXfer True 0x2f, GpioOut DC_PIN True, SpiXfer True 0x00,
         GpioOut DC_PIN False, SpiXfer False 0x61,
         GpioOut DC_PIN True, SpiXfer True 6, GpioOut DC_PIN True, SpiXfer True 64,
         GpioOut DC_PIN True, SpiXfer True 4, GpioOut DC_PIN True, SpiXfer True 176]
      else [])"
  by (simp add: init_def Let_def split_beta trace_send_command trace_send_data trace_reset
      EPD_WIDTH_def EPD_HEIGHT_def)

lemma length_range_step: "length (range_step 0 EPD_WIDTH pixels_per_byte) = 400"
  by (simp add: range_step_def EPD_WIDTH_def pixels_per_byte_def)

lemma trace_clear:
  "trace (clear busy w) =
     trace w @ [GpioOut DC_PIN False, SpiXfer False 0x10] @
     concat (replicate 480000 [GpioOut DC_PIN True, SpiXfer True 0x11]) @
     [GpioOut DC_PIN False, SpiXfer False 0x13] @
     concat (replicate 480000 [GpioOut DC_PIN True, SpiXfer True 0x11]) @
     [GpioOut DC_PIN False, SpiXfer False 0x12]"
  by (simp add: clear_def Let_def trace_refresh trace_send_command trace_fold_send_data
      EPD_WIDTH_def EPD_HEIGHT_def)

lemma trace_draw_test_pattern:
  "trace (draw_test_pattern busy w) =
     trace w @ [GpioOut DC_PIN False, SpiXfer False 0x10] @
     concat (map (\<lambda>y. concat (replicate 400 [GpioOut DC_PIN True, SpiXfer True (pixel_data y)]))
               [0..<EPD_HEIGHT]) @
     [GpioOut DC_PIN False, SpiXfer False 0x13] @
     concat (map (\<lambda>y. concat (replicate 400 [GpioOut DC_PIN True, SpiXfer True (pixel_data2 y)]))
               [0..<EPD_HEIGHT]) @
     [GpioOut DC_PIN False, SpiXfer False 0x12]"
  by (simp add: draw_test_pattern_def Let_def trace_refresh trace_send_command trace_fold_rows
      length_range_step)

lemma commands_Nil [simp]: "commands [] = []"
  by (simp add: commands_def)

lemma commands_Cons [simp]:
  "commands (e # es) = map snd (filter (\<lambda>x. \<not> fst x) (xfer_of e)) @ commands es"
  by (simp add: commands_def)


text \<open>The data loops transfer data bytes only, each after DC has been driven HIGH.\<close>

lemma xfers_data_loop:
  "xfers (concat (replicate n [GpioOut DC_PIN True, SpiXfer True v])) = replicate n (True, v)"
  by (induction n) simp_all

lemma xfers_data_rows:
  "xfers (concat (map (\<lambda>y. concat (replicate n [GpioOut DC_PIN True, SpiXfer True (f y)])) ys)) =
     concat (map (\<lambda>y. replicate n (True, f y)) ys)"
  by (induction ys) (simp_all add: xfers_data_loop)





lemma dc_driven_data_loop:
  "dc_driven (concat (replicate n [GpioOut DC_PIN True, SpiXfer True v]))"
  by (induction n) (simp_all add: dc_driven_def)

lemma dc_driven_data_rows:
  "dc_driven (concat (map (\<lambda>y. concat (replicate n [GpioOut DC_PIN True, SpiXfer True (f y)])) ys))"
proof (induction ys)
  case Nil
  then show ?case by (simp add: dc_driven_def)
next
  case (Cons y ys)
  then show ?case by (simp add: dc_driven_append dc_driven_data_loop)
qed

subsection \<open>The whole run\<close>


lemma trace_main:
  "trace (snd (main busy w)) =
     (if fst (main busy w) then
        trace (sleep busy (draw_test_pattern busy (time_sleep 10
          (clear busy (time_sleep 2 (snd (init busy (emit SpiOpen w)))))))) @ [SpiClose, GpioCleanup]
      else trace (snd (init busy (emit SpiOpen w))) @ [SpiClose, GpioCleanup])"
  by (simp add: main_def Let_def split_beta trace_cleanup)












subsection \<open>The DC line\<close>

lemma dc_driven_init: "dc_driven (trace w) \<Longrightarrow> dc_driven (trace (snd (init busy w)))"
  unfolding trace_init
  by (intro dc_driven_append) (simp_all add: dc_driven_def)

lemma dc_driven_clear: "dc_driven (trace w) \<Longrightarrow> dc_driven (trace (clear busy w))"
  unfolding trace_clear
  by (intro dc_driven_append dc_driven_data_loop) (simp_all add: dc_driven_def)

lemma dc_driven_draw_test_pattern:
  "dc_driven (trace w) \<Longrightarrow> dc_driven (trace (draw_test_pattern busy w))"
  unfolding trace_draw_test_pattern
  by (intro dc_driven_append dc_driven_data_rows) (simp_all add: dc_driven_def)

lemma dc_driven_sleep: "dc_driven (trace w) \<Longrightarrow> dc_driven (trace (sleep busy w))"
  unfolding trace_sleep
  by (intro dc_driven_append) (simp_all add: dc_driven_def)

lemma dc_driven_main:
  assumes "dc_driven (trace w)"
  shows "dc_driven (trace (snd (main busy w)))"
proof -
  let ?w1 = "snd (init busy (emit SpiOpen w))"
  have "dc_driven (trace (emit SpiOpen w))"
    using assms by (simp add: dc_driven_snoc)
  then have 1: "dc_driven (trace ?w1)" by (rule dc_driven_init)
  then have "dc_driven (trace (time_sleep 2 ?w1))" by simp
  then have "dc_driven (trace (clear busy (time_sleep 2 ?w1)))" by (rule dc_driven_clear)
  then have "dc_driven (trace (time_sleep 10 (clear busy (time_sleep 2 ?w1))))" by simp
  then have "dc_driven (trace (draw_test_pattern busy
      (time_sleep 10 (clear busy (time_sleep 2 ?w1)))))"
    by (rule dc_driven_draw_test_pattern)
  then have 2: "dc_driven (trace (sleep busy (draw_test_pattern busy
      (time_sleep 10 (clear busy (time_sleep 2 ?w1))))))"
    by (rule dc_driven_sleep)
  have 3: "dc_driven [SpiClose, GpioCleanup]" by (simp add: dc_driven_def)
  show ?thesis
    unfolding trace_main using 1 2 3 by (simp add: dc_driven_append)
qed

text \<open>
  Claim C9. \<open>send_command\<close> drives the DC pin LOW and then transfers its byte, so the
  byte goes out with DC low; \<open>send_data\<close> drives it HIGH and then transfers, so the byte
  goes out with DC high, whatever the state before. Every method of the class, and the
  whole run of \<open>main\<close>, keeps the discipline on the trace: each transfer comes directly
  after the DC pin has been driven to the level the transfer is made with.
\<close>

theorem dc_line_discipline:
  "trace (send_command c w) = trace w @ [GpioOut DC_PIN False, SpiXfer False c] \<and>
   trace (send_data v w) = trace w @ [GpioOut DC_PIN True, SpiXfer True v] \<and>
   (dc_driven (trace w) \<longrightarrow>
      dc_driven (trace (snd (init busy w))) \<and> dc_driven (trace (clear busy w)) \<and>
      dc_driven (trace (draw_test_pattern busy w)) \<and> dc_driven (trace (sleep busy w)) \<and>
      dc_driven (trace (snd (main busy w))))"
  by (simp add: trace_send_command trace_send_data dc_driven_init dc_driven_clear
      dc_driven_draw_test_pattern dc_driven_sleep dc_driven_main)

text \<open>The run from the initial state with an idle BUSY line.\<close>

theorem dc_line_discipline_witness:
  "dc_driven (trace world0) \<and> dc_driven (trace (snd (main (\<lambda>t. False) world0))) \<and>
   trace (send_command 0x12 world0) = [GpioOut DC_PIN False, SpiXfer False 0x12]"
proof -
  have h: "dc_driven (trace world0)" by (simp add: world0_def world_late_def dc_driven_def)
  have t: "trace world0 = []" by (simp add: world0_def world_late_def)
  from dc_line_discipline [of "0x12" world0 0 "\<lambda>t. False"] h t show ?thesis by simp
qed

subsection \<open>The test pattern\<close>

lemma rect_height_200: "rect_height = 200"
  by (simp add: rect_height_def EPD_HEIGHT_def)

lemma color_stripe: "color y = min (int (y div 200)) 5"
  by (simp add: color_def rect_height_200 min_def) linarith

lemma color2_color: "color2 y = color y"
  by (simp add: color2_def color_def)

lemma upt_4: "[0..<4] = [0, 1, 2, 3]"
  by (simp add: upt_rec)

lemma pixel_data_or:
  "pixel_data y = push_bit 6 (color y) OR push_bit 4 (color y) OR push_bit 2 (color y) OR color y"
  by (simp add: pixel_data_def pixels_per_byte_def upt_4 ac_simps)

lemma pixel_data2_pixel_data: "pixel_data2 y = pixel_data y"
  by (simp add: pixel_data2_def pixel_data_def color2_color)

text \<open>
  Claim C5. The stripe height is 200 rows, a sixth of the 1200 rows. The colour code of
  row \<open>y\<close> is \<open>min (y div 200) 5\<close>: 0 (black), 1 (white), 2 (red), 3 (yellow), 4 (blue),
  5 (green) from top to bottom. Every value sent for row \<open>y\<close> is built from that code
  alone, 400 of them per row, and the values sent after 0x13 are the same, in the same
  order, as those sent after 0x10.
\<close>

theorem test_pattern_stripes:
  "rect_height = 200 \<and> EPD_HEIGHT = 6 * rect_height \<and>
   color y = min (int (y div 200)) 5 \<and> color2 y = color y \<and>
   pixel_data y = push_bit 6 (color y) OR push_bit 4 (color y) OR push_bit 2 (color y) OR color y \<and>
   pixel_data2 y = pixel_data y \<and>
   xfers (trace (draw_test_pattern busy w)) =
     xfers (trace w) @ [(False, 0x10)] @
     concat (map (\<lambda>y. replicate 400 (True, pixel_data y)) [0..<1200]) @ [(False, 0x13)] @
     concat (map (\<lambda>y. replicate 400 (True, pixel_data y)) [0..<1200]) @ [(False, 0x12)]"
  using color_stripe [of y] pixel_data_or [of y]
  by (simp add: rect_height_200 color2_color pixel_data2_pixel_data trace_draw_test_pattern
      xfers_data_rows EPD_HEIGHT_def)

text \<open>
  In the rows above row 800 the codes are 0 to 3: there each slot of the value sent
  holds the code, and the value is a byte.
\<close>

lemma slots_below_800:
  assumes "y < 800" and "p < 4"
  shows "slot p (pixel_data y) = color y \<and> 0 \<le> pixel_data y \<and> pixel_data y < 256"
proof -
  from assms(1) have "y div 200 < 4" by simp
  then have "y div 200 \<in> {0, 1, 2, 3}" by auto
  then have c: "color y \<in> {0, 1, 2, 3}" by (auto simp: color_stripe)
  from assms(2) have p: "p \<in> {0, 1, 2, 3}" by auto
  from c p show ?thesis
    by (auto simp: pixel_data_or slot_def)
qed

text \<open>
  Claim C1. The value sent is the bitwise OR of the colour code shifted left by 6, 4, 2
  and 0 (\<open>pixel_data_or\<close>). That each code stays inside its two-bit slot fails from row
  800 on: the code of row 800 is 4, which does not fit in two bits. The value sent is
  340, more than a byte holds, and the slots of pixels 0, 1 and 2 read 1 and the slot of
  pixel 3 reads 0, none of them the code 4.
\<close>

theorem pixel_code_overflows_slot:
  "color 800 = 4 \<and> take_bit 2 (color 800) \<noteq> color 800 \<and>
   pixel_data 800 = 340 \<and> \<not> pixel_data 800 < 256 \<and>
   slot 0 (pixel_data 800) = 1 \<and> slot 1 (pixel_data 800) = 1 \<and>
   slot 2 (pixel_data 800) = 1 \<and> slot 3 (pixel_data 800) = 0"
  by (simp add: pixel_data_or color_stripe slot_def)

section \<open>Properties of the flag cache\<close>

subsection \<open>The cache check\<close>

text \<open>
  The check in the words of the claim: the flag is fetched again when the file is
  missing, is no image, has fewer than half of its pixels other than white, or is not
  800 by 480.
\<close>

lemma length_getdata [simp]: "length (getdata img) = width img * height img"
  by (simp add: getdata_def)

lemma half_quotient: "0 < m \<Longrightarrow> ((of_nat n :: rat) / of_nat m < 1 / 2) = (2 * n < m)"
proof -
  assume "0 < m"
  then have "((of_nat n :: rat) / of_nat m < 1 / 2) = ((of_nat (2 * n) :: rat) < of_nat m)"
    by (simp add: field_simps)
  also have "\<dots> = (2 * n < m)" by (simp only: of_nat_less_iff)
  finally show ?thesis .
qed

lemma flag_needs_update_iff:
  "flag_needs_update fs path =
     (case fs path of
        None \<Rightarrow> True
      | Some (ImageFile img) \<Rightarrow>
          2 * length (filter (\<lambda>c. c \<noteq> RGB 255 255 255) (getdata img)) < length (getdata img) \<or>
          width img \<noteq> 800 \<or> height img \<noteq> 480
      | Some other \<Rightarrow> True)"
  by (auto simp: flag_needs_update_def os_path_exists_def image_open_def Let_def screen_width_def
      screen_height_def background_color_def half_quotient split: option.splits content.splits)




subsection \<open>One country\<close>




subsection \<open>The sample inputs\<close>

lemma extract_fields_norway:
  "extract_fields sample_env norway =
     Inr norway_fields"
  by (simp add: norway_fields_def extract_fields_def norway_def sample_env_def get2_def dict_get_def and_then_def
      subscript0_def dict_values_def dict_items_def py_iter_def str_join_def make_id_def
      ascii_lower_def replace_space_def)

lemma norway_fields_simps:
  "country_id norway_fields = ''norway''"
  "flag_url norway_fields = JStr ''https://flagcdn.com/no.svg''"
  by (simp_all add: norway_fields_def)

lemma sample_env_simps:
  "http_get sample_env url = Inr ''body''"
  "json_loads sample_env body = Inr (JArr [nameless, norway])"
  "thumbnail sample_env dims img = img"
  "to_rgb sample_env c = c"
  "writable sample_env path"
  by (simp_all add: sample_env_def)


lemma sample_paths:
  "os_path_join FLAGS_DIR ''norway.bmp'' = ''server/flags/norway.bmp''"
  "os_path_join INFO_DIR ''norway.json'' = ''server/info/norway.json''"
  "os_path_join INFO_DIR ''index.json'' = ''server/info/index.json''"
  by (simp_all add: os_path_join_def FLAGS_DIR_def INFO_DIR_def)


lemma load_image_sample: "load_image sample_env (JStr ''https://flagcdn.com/no.svg'') b = Inr red_flag"
  by (simp add: load_image_def str_endswith_def and_then_def sample_env_def)


lemma write_file_cases:
  "write_file env path c st =
     (if writable env path then (Inr (), st\<lparr>files := (files st)(path \<mapsto> c)\<rparr>)
      else (Inl OSError, st))"
  by (simp add: write_file_def)

lemma process_country_success:
  assumes ex: "extract_fields env country = Inr f"
    and ok: "process_country env country st = (Inr entry, st')"
  shows "entry = country_id f @ ''.json'' \<and>
         files st' (os_path_join INFO_DIR (country_id f @ ''.json'')) = Some (JsonFile (metadata f))"
proof -
  let ?json = "os_path_join INFO_DIR (country_id f @ ''.json'')"
  let ?bmp = "os_path_join FLAGS_DIR (country_id f @ ''.bmp'')"
  obtain r st1 where flag:
    "(if flag_needs_update (files st) ?bmp then update_flag env f ?bmp st else (Inr (), st)) = (r, st1)"
    by (cases "if flag_needs_update (files st) ?bmp then update_flag env f ?bmp st else (Inr (), st)")
  show ?thesis
  proof (cases r)
    case (Inl e)
    with ex flag ok show ?thesis by (simp add: process_country_def Let_def)
  next
    case (Inr u)
    show ?thesis
    proof (cases "writable env ?json")
      case True
      with ex flag Inr ok show ?thesis
        by (auto simp: process_country_def Let_def write_file_cases)
    next
      case False
      with ex flag Inr ok show ?thesis
        by (simp add: process_country_def Let_def write_file_cases)
    qed
  qed
qed

subsection \<open>The rendered canvas\<close>

lemma render_size: "width (render env img0) = 800 \<and> height (render env img0) = 480"
  by (simp add: render_def paste_def image_new_def Let_def screen_width_def screen_height_def)

lemma render_pixel:
  "pixel_at (render env img0) x y =
     (let t = thumbnail env (800, 480) img0;
          x_offset = (800 - int (width t)) div 2;
          y_offset = (480 - int (height t)) div 2
      in if x_offset \<le> int x \<and> int x < x_offset + int (width t) \<and>
            y_offset \<le> int y \<and> int y < y_offset + int (height t)
         then to_rgb env (pixel_at t (nat (int x - x_offset)) (nat (int y - y_offset)))
         else RGB 255 255 255)"
  by (simp add: render_def paste_def image_new_def Let_def screen_width_def screen_height_def)

lemma update_flag_saves:
  assumes "update_flag env f bmp_path st = (Inr u, st')"
  shows "\<exists>body img0. http_get env (flag_url f) = Inr body \<and>
           load_image env (flag_url f) body = Inr img0 \<and>
           files st' bmp_path = Some (ImageFile (render env img0))"
proof (cases "http_get env (flag_url f)")
  case (Inl e)
  with assms show ?thesis by (simp add: update_flag_def Let_def)
next
  case body: (Inr body)
  show ?thesis
  proof (cases "load_image env (flag_url f) body")
    case (Inl e)
    with assms body show ?thesis by (simp add: update_flag_def Let_def)
  next
    case (Inr img0)
    with assms body show ?thesis
      by (auto simp: update_flag_def Let_def write_file_cases split: if_splits)
  qed
qed

text \<open>
  Claim C7. The canvas that is rendered is 800 by 480 whatever the size of the image
  fetched. Its pixel at \<open>(x, y)\<close> is the pixel of the thumbnail at
  \<open>(x - x_offset, y - y_offset)\<close>, converted to RGB, inside the box of the thumbnail's
  size \<open>w\<close> by \<open>h\<close> whose corner is \<open>((800 - w) div 2, (480 - h) div 2)\<close>, and white
  elsewhere. When the thumbnail fits
  within 800 by 480, as \<^verbatim>\<open>Image.thumbnail\<close> promises, the box lies within the canvas
  and is centred: the margins on opposite sides differ by at most one pixel. Whenever
  \<open>update_flag\<close> succeeds, the file at the BMP path is this canvas, rendered from the
  image decoded from the download.
\<close>

theorem regenerated_flag_canvas:
  "let t = thumbnail env (800, 480) img0;
       canvas = render env img0;
       x_offset = (800 - int (width t)) div 2;
       y_offset = (480 - int (height t)) div 2
   in width canvas = 800 \<and> height canvas = 480 \<and>
      (\<forall>x y. pixel_at canvas x y =
         (if x_offset \<le> int x \<and> int x < x_offset + int (width t) \<and>
             y_offset \<le> int y \<and> int y < y_offset + int (height t)
          then to_rgb env (pixel_at t (nat (int x - x_offset)) (nat (int y - y_offset)))
          else RGB 255 255 255)) \<and>
      (width t \<le> 800 \<and> height t \<le> 480 \<longrightarrow>
         0 \<le> x_offset \<and> x_offset + int (width t) \<le> 800 \<and>
         0 \<le> y_offset \<and> y_offset + int (height t) \<le> 480 \<and>
         (800 - (x_offset + int (width t))) - x_offset \<in> {0, 1} \<and>
         (480 - (y_offset + int (height t))) - y_offset \<in> {0, 1}) \<and>
      (\<forall>f bmp_path st u st'. update_flag env f bmp_path st = (Inr u, st') \<longrightarrow>
         (\<exists>body img. http_get env (flag_url f) = Inr body \<and>
            load_image env (flag_url f) body = Inr img \<and>
            files st' bmp_path = Some (ImageFile (render env img))))"
proof -
  let ?t = "thumbnail env (800, 480) img0"
  let ?x = "(800 - int (width ?t)) div 2"
  let ?y = "(480 - int (height ?t)) div 2"
  have fit: "0 \<le> ?x \<and> ?x + int (width ?t) \<le> 800 \<and> 0 \<le> ?y \<and> ?y + int (height ?t) \<le> 480 \<and>
      (800 - (?x + int (width ?t))) - ?x \<in> {0, 1} \<and> (480 - (?y + int (height ?t))) - ?y \<in> {0, 1}"
    if "width ?t \<le> 800 \<and> height ?t \<le> 480"
  proof -
    from that have "int (width ?t) \<le> 800" "int (height ?t) \<le> 480" by simp_all
    then show ?thesis by (simp add: insert_iff) presburger
  qed
  from render_size [of env img0] render_pixel [of env img0] fit update_flag_saves [of env]
  show ?thesis unfolding Let_def by blast
qed

text \<open>
  A flag of 101 by 50 pixels is placed with its corner at (349, 215); and the canvas
  saved for Norway is the one rendered from the decoded download.
\<close>

theorem regenerated_flag_canvas_witness:
  "width (thumbnail sample_env (800, 480) small_flag) \<le> 800 \<and>
   height (thumbnail sample_env (800, 480) small_flag) \<le> 480 \<and>
   width (render sample_env small_flag) = 800 \<and> height (render sample_env small_flag) = 480 \<and>
   pixel_at (render sample_env small_flag) 348 215 = RGB 255 255 255 \<and>
   pixel_at (render sample_env small_flag) 349 215 = RGB 0 0 0 \<and>
   pixel_at (render sample_env small_flag) 449 264 = RGB 0 0 149 \<and>
   pixel_at (render sample_env small_flag) 450 264 = RGB 255 255 255 \<and>
   files (snd (update_flag sample_env norway_fields ''server/flags/norway.bmp'' st0))
     ''server/flags/norway.bmp'' = Some (ImageFile (render sample_env red_flag))"
proof -
  have t: "thumbnail sample_env (800, 480) small_flag = small_flag"
    and rgb: "to_rgb sample_env = (\<lambda>c. c)"
    by (simp_all add: sample_env_def)
  have dims: "width small_flag = 101" "height small_flag = 50"
    and px: "pixel_at small_flag = (\<lambda>x y. RGB 0 0 (x + y))"
    by (simp_all add: small_flag_def)
  have up: "update_flag sample_env norway_fields ''server/flags/norway.bmp'' st0 =
      ((Inr (), snd (update_flag sample_env norway_fields ''server/flags/norway.bmp'' st0)))"
    by (simp add: update_flag_def Let_def write_file_cases norway_fields_simps load_image_sample
        sample_env_simps)
  note spec = regenerated_flag_canvas [of sample_env small_flag, unfolded Let_def t dims]
  from spec have size: "width (render sample_env small_flag) = 800"
    "height (render sample_env small_flag) = 480" by simp_all
  from spec have pix: "pixel_at (render sample_env small_flag) x y =
      (if (800 - int 101) div 2 \<le> int x \<and> int x < (800 - int 101) div 2 + int 101 \<and>
          (480 - int 50) div 2 \<le> int y \<and> int y < (480 - int 50) div 2 + int 50
       then to_rgb sample_env (pixel_at small_flag (nat (int x - (800 - int 101) div 2))
              (nat (int y - (480 - int 50) div 2)))
       else RGB 255 255 255)" for x y
    by blast
  from spec up obtain body img where saved:
    "load_image sample_env (flag_url norway_fields) body = Inr img"
    "files (snd (update_flag sample_env norway_fields ''server/flags/norway.bmp'' st0))
       ''server/flags/norway.bmp'' = Some (ImageFile (render sample_env img))"
    by blast
  from saved(1) have "img = red_flag" by (simp add: norway_fields_simps load_image_sample)
  with saved(2) size show ?thesis
    by (simp add: t dims pix [of 348 215] pix [of 349 215] pix [of 449 264] pix [of 450 264] rgb px)
qed

subsection \<open>The loop over the countries\<close>

text \<open>
  When the lookup of the name raises, it raises in the body and again in the handler:
  the loop is left with that exception.
\<close>

lemma malformed_name_aborts:
  assumes "get2 country ''name'' ''common'' (JStr ''Unknown'') = Inl e"
  shows "for_countries env (country # rest) index_data st = (Inl e, st)"
proof -
  from assms have "extract_fields env country = Inl e"
    by (simp add: extract_fields_def and_then_def)
  then have "process_country env country st = (Inl e, st)"
    by (simp add: process_country_def)
  with assms show ?thesis by simp
qed

text \<open>When the name of every country can be looked up, the loop runs to its end.\<close>

lemma for_countries_completes:
  assumes "\<forall>c\<in>set cs. \<exists>name. get2 c ''name'' ''common'' (JStr ''Unknown'') = Inr name"
  shows "\<exists>index_data' st'. for_countries env cs index_data st = (Inr index_data', st')"
  using assms
proof (induction cs arbitrary: index_data st)
  case Nil
  then show ?case by simp
next
  case (Cons c cs)
  then obtain name where name: "get2 c ''name'' ''common'' (JStr ''Unknown'') = Inr name"
    by auto
  obtain r st1 where r: "process_country env c st = (r, st1)"
    by (cases "process_country env c st")
  show ?case
  proof (cases r)
    case (Inl e)
    with r name Cons.IH [of index_data "st1\<lparr>console := console st1 @ [Failed_to_process name e]\<rparr>"]
      Cons.prems
    show ?thesis by simp
  next
    case (Inr entry)
    with r Cons.IH [of "index_data @ [entry]" st1] Cons.prems show ?thesis by simp
  qed
qed

text \<open>
  Claim C6. The claim says that an exception in one country is printed and the loop
  goes on, and that \<^verbatim>\<open>index.json\<close> is written in the end. On the API answer
  \<^verbatim>\<open>[{"name": null, ...}, Norway]\<close> the lookup of the name raises \<^verbatim>\<open>AttributeError\<close>
  in the body and again in the handler that prints the message. The run ends with the
  outer handler's message: Norway, which on its own is processed successfully, is never
  reached, and neither its metadata file nor \<^verbatim>\<open>index.json\<close> is written.
\<close>

theorem handler_exception_aborts_run:
  "get2 nameless ''name'' ''common'' (JStr ''Unknown'') = Inl AttributeError \<and>
   fetch_and_save_flags sample_env st0 =
     st0\<lparr>http_log := [JStr REST_COUNTRIES_API], console := [Failed_to_fetch AttributeError]\<rparr> \<and>
   files (fetch_and_save_flags sample_env st0) ''server/info/index.json'' = None \<and>
   files (fetch_and_save_flags sample_env st0) ''server/info/norway.json'' = None \<and>
   fst (process_country sample_env norway st0) = Inr ''norway.json''"
proof -
  have bad: "get2 nameless ''name'' ''common'' (JStr ''Unknown'') = Inl AttributeError"
    by (simp add: get2_def nameless_def dict_get_def and_then_def)
  have api: "and_then (and_then (http_get sample_env (JStr REST_COUNTRIES_API)) (json_loads sample_env))
               py_iter = Inr [nameless, norway]"
    by (simp add: sample_env_simps and_then_def py_iter_def)
  have loop: "for_countries sample_env [nameless, norway] [] st = (Inl AttributeError, st)" for st
    using bad by (rule malformed_name_aborts)
  have run: "fetch_and_save_flags sample_env st0 =
     st0\<lparr>http_log := [JStr REST_COUNTRIES_API], console := [Failed_to_fetch AttributeError]\<rparr>"
    by (simp add: fetch_and_save_flags_def Let_def api loop st0_def del: for_countries.simps)
  have one: "fst (process_country sample_env norway st0) = Inr ''norway.json''"
    by (simp add: process_country_def extract_fields_norway Let_def update_flag_def
        write_file_cases norway_fields_simps load_image_sample flag_needs_update_iff sample_paths
        sample_env_simps st0_def)
  from bad run one show ?thesis by (simp add: st0_def)
qed

subsection \<open>A run of \<^verbatim>\<open>fetch_and_save_flags\<close>, country by country\<close>

text \<open>The loop over a list of countries is the loop over its front, continued on its rest.\<close>

lemma for_countries_append:
  "for_countries env (xs @ ys) index_data st =
     (case for_countries env xs index_data st of
        (Inl e, s) \<Rightarrow> (Inl e, s)
      | (Inr index_data', s) \<Rightarrow> for_countries env ys index_data' s)"
proof (induction xs arbitrary: index_data st)
  case Nil
  show ?case by simp
next
  case (Cons c xs)
  obtain r s1 where r: "process_country env c st = (r, s1)"
    by (cases "process_country env c st")
  show ?case
  proof (cases r)
    case (Inr entry)
    with r Cons.IH show ?thesis by simp
  next
    case (Inl e)
    show ?thesis
    proof (cases "get2 c ''name'' ''common'' (JStr ''Unknown'')")
      case raised: (Inl e')
      with r Inl show ?thesis by simp
    next
      case (Inr name)
      with r Inl Cons.IH show ?thesis by simp
    qed
  qed
qed







text \<open>From the position before a country to the position after it.\<close>

lemma reaches_step:
  assumes "reaches env st countries i index_data s" and "i < length countries"
  shows "process_country env (countries ! i) s = (Inr entry, s') \<Longrightarrow>
           reaches env st countries (Suc i) (index_data @ [entry]) s'"
    and "process_country env (countries ! i) s = (Inl e, s') \<Longrightarrow>
         get2 (countries ! i) ''name'' ''common'' (JStr ''Unknown'') = Inr name \<Longrightarrow>
           reaches env st countries (Suc i) index_data
             (s'\<lparr>console := console s' @ [Failed_to_process name e]\<rparr>)"
proof -
  let ?st1 = "st\<lparr>http_log := http_log st @ [JStr REST_COUNTRIES_API]\<rparr>"
  from assms(1) have api: "and_then (and_then (http_get env (JStr REST_COUNTRIES_API))
      (json_loads env)) py_iter = Inr countries"
    and pre: "for_countries env (take i countries) [] ?st1 = (Inr index_data, s)"
    by (simp_all add: reaches_def)
  have split: "take (Suc i) countries = take i countries @ [countries ! i]"
    using assms(2) by (rule take_Suc_conv_app_nth)
  have run: "for_countries env (take (Suc i) countries) [] ?st1 =
      for_countries env [countries ! i] index_data s"
    by (simp only: split for_countries_append pre) simp
  show "process_country env (countries ! i) s = (Inr entry, s') \<Longrightarrow>
           reaches env st countries (Suc i) (index_data @ [entry]) s'"
    using api assms(2) run by (simp add: reaches_def)
  show "process_country env (countries ! i) s = (Inl e, s') \<Longrightarrow>
         get2 (countries ! i) ''name'' ''common'' (JStr ''Unknown'') = Inr name \<Longrightarrow>
           reaches env st countries (Suc i) index_data
             (s'\<lparr>console := console s' @ [Failed_to_process name e]\<rparr>)"
    using api assms(2) run by (simp add: reaches_def)
qed

text \<open>The loop starts once the API has answered with a list.\<close>

lemma reaches_start:
  assumes "and_then (and_then (http_get env (JStr REST_COUNTRIES_API)) (json_loads env)) py_iter =
      Inr countries"
  shows "reaches env st countries 0 []
           (st\<lparr>http_log := http_log st @ [JStr REST_COUNTRIES_API]\<rparr>)"
  using assms by (simp add: reaches_def)

text \<open>
  A country whose fields cannot be read, but whose name can, is skipped with a message:
  no request is made and no file is written, whatever the state of its cached flag.
\<close>

lemma unreadable_country_skipped:
  assumes "reaches env st countries i index_data s" and "i < length countries"
    and "extract_fields env (countries ! i) = Inl e"
    and "get2 (countries ! i) ''name'' ''common'' (JStr ''Unknown'') = Inr name"
  shows "reaches env st countries (Suc i) index_data
           (s\<lparr>console := console s @ [Failed_to_process name e]\<rparr>)"
proof -
  from assms(3) have "process_country env (countries ! i) s = (Inl e, s)"
    by (simp add: process_country_def)
  from reaches_step(2) [OF assms(1,2) this assms(4)] show ?thesis .
qed

text \<open>Where each field that was read comes from (lines 35-52).\<close>

lemma and_then_Inr: "and_then m g = Inr y \<Longrightarrow> \<exists>x. m = Inr x \<and> g x = Inr y"
  by (cases m) (simp_all add: and_then_def)

























end
